theory Spec2Isabelle
  imports Complex_Main "HOL-Library.Multiset"
begin

section \<open>Conventions\<close>

text \<open>
  A shallow embedding of the Barnes-Hut t-SNE core (\<^verbatim>\<open>tsne.cpp\<close>, \<^verbatim>\<open>vptree.h\<close> and the
  batched perplexity search). C arrays are lists, array indices and loop counters are
  natural numbers, and \<^verbatim>\<open>float\<close> values are real numbers, without rounding. The
  perplexity calibration is the exception: its bandwidth can leave the range of
  \<^verbatim>\<open>float\<close>, so there a value is a real number, an infinity or NaN. Where a result depends
  on what the machine's \<^verbatim>\<open>exp\<close> and \<^verbatim>\<open>log\<close> return (underflow to zero), these two
  library functions are parameters of the model.
\<close>

text \<open>The two constants of \<^verbatim>\<open><cfloat>\<close> the code uses, at their IEEE single precision values.\<close>

definition FLT_MIN :: real where
  "FLT_MIN = 1 / 2 ^ 126"

definition FLT_MAX :: real where
  "FLT_MAX = (2 ^ 24 - 1) * 2 ^ 104"

section \<open>The optimizer's coordinate update (\<^verbatim>\<open>TSNE::run\<close>, lines 167-174)\<close>

text \<open>
  Modelled from the spec: the helper \<^verbatim>\<open>sign\<close> is declared in \<^verbatim>\<open>tsne.h\<close>, which is not
  among the sources; the spec only speaks of the sign of a component, so it is the
  three-valued sign.
\<close>

definition sign :: "real \<Rightarrow> real" where
  "sign x = (if x = 0 then 0 else if x < 0 then - 1 else 1)"

record opt_state =
  o_gains :: "real list"
  o_uY :: "real list"
  o_Y :: "real list"

text \<open>One pass of the body of \<^verbatim>\<open>for (int i = 0; i < N * no_dims; i++)\<close>.\<close>

definition update_coord :: "real \<Rightarrow> real \<Rightarrow> real list \<Rightarrow> nat \<Rightarrow> opt_state \<Rightarrow> opt_state" where
  "update_coord momentum eta dY i s =
     (let gs = (o_gains s)[i := (if sign (dY ! i) \<noteq> sign (o_uY s ! i)
                               then o_gains s ! i + 0.2
                               else o_gains s ! i * 0.8 + 0.01)];
          us = (o_uY s)[i := momentum * o_uY s ! i - eta * gs ! i * dY ! i];
          ys = (o_Y s)[i := o_Y s ! i + us ! i]
      in \<lparr>o_gains = gs, o_uY = us, o_Y = ys\<rparr>)"

definition update_loop :: "real \<Rightarrow> real \<Rightarrow> real list \<Rightarrow> nat \<Rightarrow> opt_state \<Rightarrow> opt_state" where
  "update_loop momentum eta dY n s = fold (update_coord momentum eta dY) [0..<n] s"

text \<open>The gain rule as the specification words it: times 0.8, but never below 0.01.\<close>

definition spec_gain_floor :: "real \<Rightarrow> real \<Rightarrow> real \<Rightarrow> real" where
  "spec_gain_floor g d u = (if sign d \<noteq> sign u then g + 0.2 else max (g * 0.8) 0.01)"

text \<open>The gain rule of the code: times 0.8, plus 0.01.\<close>

definition code_gain :: "real \<Rightarrow> real \<Rightarrow> real \<Rightarrow> real" where
  "code_gain g d u = (if sign d \<noteq> sign u then g + 0.2 else g * 0.8 + 0.01)"

subsection \<open>The update loop touches every coordinate once\<close>

lemma update_coord_length:
  "length (o_gains (update_coord m e dY i s)) = length (o_gains s) \<and>
   length (o_uY (update_coord m e dY i s)) = length (o_uY s) \<and>
   length (o_Y (update_coord m e dY i s)) = length (o_Y s)"
  by (simp add: update_coord_def Let_def)

lemma update_coord_other:
  "j \<noteq> i \<Longrightarrow>
   o_gains (update_coord m e dY i s) ! j = o_gains s ! j \<and>
   o_uY (update_coord m e dY i s) ! j = o_uY s ! j \<and>
   o_Y (update_coord m e dY i s) ! j = o_Y s ! j"
  by (simp add: update_coord_def Let_def)

lemma update_coord_same:
  assumes "i < length (o_gains s)" "i < length (o_uY s)" "i < length (o_Y s)"
  shows "o_gains (update_coord m e dY i s) ! i = code_gain (o_gains s ! i) (dY ! i) (o_uY s ! i)"
    and "o_uY (update_coord m e dY i s) ! i =
           m * o_uY s ! i - e * code_gain (o_gains s ! i) (dY ! i) (o_uY s ! i) * dY ! i"
    and "o_Y (update_coord m e dY i s) ! i =
           o_Y s ! i + (m * o_uY s ! i - e * code_gain (o_gains s ! i) (dY ! i) (o_uY s ! i) * dY ! i)"
  using assms by (simp_all add: update_coord_def Let_def code_gain_def)

lemma update_loop_Suc:
  "update_loop m e dY (Suc n) s = update_coord m e dY n (update_loop m e dY n s)"
  by (simp add: update_loop_def)

lemma update_loop_length:
  "length (o_gains (update_loop m e dY n s)) = length (o_gains s) \<and>
   length (o_uY (update_loop m e dY n s)) = length (o_uY s) \<and>
   length (o_Y (update_loop m e dY n s)) = length (o_Y s)"
proof (induction n)
  case 0
  show ?case by (simp add: update_loop_def)
next
  case (Suc n)
  then show ?case by (simp add: update_loop_Suc update_coord_length)
qed

lemma update_loop_beyond:
  "n \<le> j \<Longrightarrow>
   o_gains (update_loop m e dY n s) ! j = o_gains s ! j \<and>
   o_uY (update_loop m e dY n s) ! j = o_uY s ! j \<and>
   o_Y (update_loop m e dY n s) ! j = o_Y s ! j"
proof (induction n)
  case 0
  show ?case by (simp add: update_loop_def)
next
  case (Suc n)
  then have "j \<noteq> n" "n \<le> j" by simp_all
  with Suc.IH show ?case by (simp add: update_loop_Suc update_coord_other)
qed

lemma update_loop_at:
  assumes "n \<le> length (o_gains s)" "n \<le> length (o_uY s)" "n \<le> length (o_Y s)" "i < n"
  shows "o_gains (update_loop m e dY n s) ! i = code_gain (o_gains s ! i) (dY ! i) (o_uY s ! i) \<and>
         o_uY (update_loop m e dY n s) ! i =
           m * o_uY s ! i - e * code_gain (o_gains s ! i) (dY ! i) (o_uY s ! i) * dY ! i \<and>
         o_Y (update_loop m e dY n s) ! i =
           o_Y s ! i + (m * o_uY s ! i - e * code_gain (o_gains s ! i) (dY ! i) (o_uY s ! i) * dY ! i)"
  using assms
proof (induction n)
  case 0
  then show ?case by simp
next
  case (Suc n)
  let ?t = "update_loop m e dY n s"
  show ?case
  proof (cases "i = n")
    case True
    have len: "n < length (o_gains ?t)" "n < length (o_uY ?t)" "n < length (o_Y ?t)"
      using Suc.prems by (simp_all add: update_loop_length)
    have old: "o_gains ?t ! n = o_gains s ! n" "o_uY ?t ! n = o_uY s ! n" "o_Y ?t ! n = o_Y s ! n"
      using update_loop_beyond [of n n m e dY s] by simp_all
    show ?thesis
      unfolding update_loop_Suc True
      using update_coord_same [OF len, of m e dY] by (simp add: old)
  next
    case False
    with Suc.prems have "i < n" by simp
    with Suc have IH: "o_gains ?t ! i = code_gain (o_gains s ! i) (dY ! i) (o_uY s ! i) \<and>
         o_uY ?t ! i = m * o_uY s ! i - e * code_gain (o_gains s ! i) (dY ! i) (o_uY s ! i) * dY ! i \<and>
         o_Y ?t ! i = o_Y s ! i + (m * o_uY s ! i - e * code_gain (o_gains s ! i) (dY ! i) (o_uY s ! i) * dY ! i)"
      by simp
    show ?thesis
      unfolding update_loop_Suc
      using update_coord_other [OF False, of m e dY ?t] IH by simp
  qed
qed

text \<open>
  C6, as the code has it. In one optimizer iteration, for every coordinate \<open>i\<close> of the
  \<open>n = N * no_dims\<close> coordinates, the gain becomes gain + 0.2 when the sign of the gradient
  component differs from the sign of the previous velocity component and gain * 0.8 + 0.01
  otherwise (0.01 is added, it is not a lower bound); the velocity becomes
  momentum * velocity - eta * (new gain) * gradient, and the position is incremented by the
  new velocity.
\<close>

theorem C6_update_rule:
  assumes "n \<le> length (o_gains s)" and "n \<le> length (o_uY s)" and "n \<le> length (o_Y s)"
    and "i < n"
  shows "o_gains (update_loop momentum eta dY n s) ! i =
           (if sign (dY ! i) \<noteq> sign (o_uY s ! i) then o_gains s ! i + 0.2
            else o_gains s ! i * 0.8 + 0.01)
       \<and> o_uY (update_loop momentum eta dY n s) ! i =
           momentum * o_uY s ! i - eta * o_gains (update_loop momentum eta dY n s) ! i * dY ! i
       \<and> o_Y (update_loop momentum eta dY n s) ! i =
           o_Y s ! i + o_uY (update_loop momentum eta dY n s) ! i"
  using update_loop_at [OF assms, of momentum eta dY] by (simp add: code_gain_def)

theorem C6_update_rule_witness:
  "o_gains (update_loop 0.5 200 [1, -1] 2 \<lparr>o_gains = [1, 1], o_uY = [1, 1], o_Y = [0, 0]\<rparr>) ! 0 = 0.81
   \<and> o_gains (update_loop 0.5 200 [1, -1] 2 \<lparr>o_gains = [1, 1], o_uY = [1, 1], o_Y = [0, 0]\<rparr>) ! 1 = 1.2"
  using C6_update_rule [of 2 "\<lparr>o_gains = [1, 1], o_uY = [1, 1], o_Y = [0, 0]\<rparr>" 0 "0.5" 200 "[1, -1]"]
        C6_update_rule [of 2 "\<lparr>o_gains = [1, 1], o_uY = [1, 1], o_Y = [0, 0]\<rparr>" 1 "0.5" 200 "[1, -1]"]
  by (simp add: sign_def)

text \<open>
  C6, as the specification words it, fails: with gain 1 and equal signs the code yields
  0.81, while "multiplied by 0.8 with a floor of 0.01" yields 0.8.
\<close>

theorem C6_floor_counterexample:
  "o_gains (update_loop 0.5 200 [1] 1 \<lparr>o_gains = [1], o_uY = [1], o_Y = [0]\<rparr>) ! 0 = 0.81
   \<and> spec_gain_floor 1 1 1 = 0.8
   \<and> o_gains (update_loop 0.5 200 [1] 1 \<lparr>o_gains = [1], o_uY = [1], o_Y = [0]\<rparr>) ! 0 \<noteq> spec_gain_floor 1 1 1"
  by (simp add: update_loop_def update_coord_def Let_def spec_gain_floor_def sign_def)

section \<open>The gradient and the main training loop (\<^verbatim>\<open>TSNE::computeGradient\<close>, \<^verbatim>\<open>TSNE::run\<close>)\<close>

text \<open>
  The C library's \<^verbatim>\<open>exp\<close> and \<^verbatim>\<open>log\<close>, as the code calls them. Nothing is assumed of
  them but what a theorem states; \<open>real_libm\<close> is the exact pair.
\<close>

record libm =
  m_exp :: "real \<Rightarrow> real"
  m_log :: "real \<Rightarrow> real"

definition real_libm :: libm where
  "real_libm = \<lparr>m_exp = exp, m_log = ln\<rparr>"

text \<open>
  \<^verbatim>\<open>SplitTree\<close> (\<^verbatim>\<open>splittree.h\<close>) is not among the sources, so the tree is a parameter:
  \<open>cnef Y N no_dims n theta\<close> is what \<^verbatim>\<open>SplitTree(Y, N, no_dims).computeNonEdgeForces(n,
  theta, neg_f + n * no_dims, &this_Q)\<close> adds to the \<open>no_dims\<close> cells of \<^verbatim>\<open>neg_f\<close> and to
  \<^verbatim>\<open>this_Q\<close>, both zero before the call.
\<close>

type_synonym nonedge = "real list \<Rightarrow> nat \<Rightarrow> nat \<Rightarrow> nat \<Rightarrow> real \<Rightarrow> real list \<times> real"

text \<open>The squared distance of rows \<open>ind1\<close> and \<open>ind2\<close> of \<open>Y\<close> (lines 247-252).\<close>

definition sqdist :: "real list \<Rightarrow> nat \<Rightarrow> nat \<Rightarrow> nat \<Rightarrow> real" where
  "sqdist Y no_dims ind1 ind2 =
     fold (\<lambda>d D. D + (Y ! (ind1 + d) - Y ! (ind2 + d)) * (Y ! (ind1 + d) - Y ! (ind2 + d)))
       [0..<no_dims] 0"

text \<open>
  The body of the loop over the edges \<open>i\<close> of point \<open>n\<close> (lines 244-265); the state is
  \<open>(pos_f, P_i_sum, C)\<close>.
\<close>

definition edge_force ::
  "libm \<Rightarrow> nat list \<Rightarrow> real list \<Rightarrow> real list \<Rightarrow> nat \<Rightarrow> bool \<Rightarrow> nat \<Rightarrow> nat \<Rightarrow>
   real list \<times> real \<times> real \<Rightarrow> real list \<times> real \<times> real" where
  "edge_force lm col_P val_P Y no_dims eval_error n i st =
     (let ind1 = n * no_dims;
          ind2 = col_P ! i * no_dims;
          D = sqdist Y no_dims ind1 ind2;
          P_i_sum = (if eval_error then fst (snd st) + val_P ! i else fst (snd st));
          C = (if eval_error
               then snd (snd st) +
                    val_P ! i * m_log lm ((val_P ! i + FLT_MIN) / ((1 / (1 + D)) + FLT_MIN))
               else snd (snd st));
          D2 = val_P ! i / (1 + D);
          pos_f = fold (\<lambda>d pf. pf[ind1 + d := pf ! (ind1 + d) + D2 * (Y ! (ind1 + d) - Y ! (ind2 + d))])
                    [0..<no_dims] (fst st)
      in (pos_f, P_i_sum, C))"

text \<open>\<^verbatim>\<open>computeGradient\<close> returns the error \<open>C\<close> and fills \<open>dC\<close>: the result is the pair.\<close>

definition computeGradient ::
  "libm \<Rightarrow> nonedge \<Rightarrow> nat list \<Rightarrow> nat list \<Rightarrow> real list \<Rightarrow> real list \<Rightarrow> nat \<Rightarrow> nat \<Rightarrow> real \<Rightarrow> bool \<Rightarrow>
   real \<times> real list" where
  "computeGradient lm cnef row_P col_P val_P Y N no_dims theta eval_error =
     (let st = fold (\<lambda>n st. fold (edge_force lm col_P val_P Y no_dims eval_error n)
                                [row_P ! n..<row_P ! (n + 1)] st)
                 [0..<N] (replicate (N * no_dims) 0, 0, 0);
          pos_f = fst st;
          P_i_sum = fst (snd st);
          C = snd (snd st);
          Q = map (\<lambda>n. snd (cnef Y N no_dims n theta)) [0..<N];
          neg_f = map (\<lambda>i. fst (cnef Y N no_dims (i div no_dims) theta) ! (i mod no_dims))
                    [0..<N * no_dims];
          sum_Q = fold (\<lambda>q a. a + q) Q 0;
          dC = map (\<lambda>i. pos_f ! i - neg_f ! i / sum_Q) [0..<N * no_dims]
      in (C + P_i_sum * m_log lm sum_Q, dC))"

text \<open>\<^verbatim>\<open>zeroMean\<close> (lines 570-591).\<close>

definition zeroMean :: "real list \<Rightarrow> nat \<Rightarrow> nat \<Rightarrow> real list" where
  "zeroMean X N D =
     (let mean = map (\<lambda>d. fold (\<lambda>n m. m + X ! (n * D + d)) [0..<N] 0 / real N) [0..<D]
      in fold (\<lambda>n X1. fold (\<lambda>d X2. X2[n * D + d := X2 ! (n * D + d) - mean ! d]) [0..<D] X1)
           [0..<N] X)"

text \<open>
  The loops \<^verbatim>\<open>for (i < row_P[N]) val_P[i] *= early_exaggeration\<close> (line 140) and
  \<^verbatim>\<open>val_P[i] /= early_exaggeration\<close> (line 181).
\<close>

definition lie :: "real \<Rightarrow> nat \<Rightarrow> real list \<Rightarrow> real list" where
  "lie early_exaggeration no_elem val_P =
     fold (\<lambda>i v. v[i := v ! i * early_exaggeration]) [0..<no_elem] val_P"

definition stop_lying :: "real \<Rightarrow> nat \<Rightarrow> real list \<Rightarrow> real list" where
  "stop_lying early_exaggeration no_elem val_P =
     fold (\<lambda>i v. v[i := v ! i / early_exaggeration]) [0..<no_elem] val_P"

text \<open>
  The state of the training loop: the affinity values, the embedding, velocity and gains,
  the momentum, and what was printed (iteration number and error) on the verbosity
  channel.
\<close>

record run_state =
  rs_val_P :: "real list"
  rs_Y :: "real list"
  rs_uY :: "real list"
  rs_gains :: "real list"
  rs_momentum :: real
  rs_printed :: "(nat \<times> real) list"

text \<open>The configuration of a run: the arguments of \<^verbatim>\<open>TSNE::run\<close> the loop reads.\<close>

record run_config =
  cfg_N :: nat
  cfg_no_dims :: nat
  cfg_theta :: real
  cfg_max_iter :: int
  cfg_n_iter_early_exag :: int
  cfg_init_from_Y :: bool
  cfg_verbose :: int
  cfg_early_exaggeration :: real
  cfg_learning_rate :: real

definition stop_lying_iter :: "run_config \<Rightarrow> int" where
  "stop_lying_iter cfg = (if cfg_init_from_Y cfg then 0 else cfg_n_iter_early_exag cfg)"

definition mom_switch_iter :: "run_config \<Rightarrow> int" where
  "mom_switch_iter cfg = cfg_n_iter_early_exag cfg"

text \<open>One pass of the body of \<^verbatim>\<open>for (int iter = 0; iter < max_iter; iter++)\<close> (lines 161-200).\<close>

definition run_iter ::
  "libm \<Rightarrow> nonedge \<Rightarrow> run_config \<Rightarrow> nat list \<Rightarrow> nat list \<Rightarrow> nat \<Rightarrow> run_state \<Rightarrow> run_state" where
  "run_iter lm cnef cfg row_P col_P iter s =
     (let need_eval_error = (cfg_verbose cfg \<noteq> 0 \<and>
            ((iter > 0 \<and> iter mod 100 = 0) \<or> int iter = cfg_max_iter cfg - 1));
          g = computeGradient lm cnef row_P col_P (rs_val_P s) (rs_Y s) (cfg_N cfg) (cfg_no_dims cfg)
                (cfg_theta cfg) need_eval_error;
          upd = update_loop (rs_momentum s) (cfg_learning_rate cfg) (snd g) (cfg_N cfg * cfg_no_dims cfg)
                \<lparr>o_gains = rs_gains s, o_uY = rs_uY s, o_Y = rs_Y s\<rparr>
      in \<lparr>rs_val_P = (if int iter = stop_lying_iter cfg
                      then stop_lying (cfg_early_exaggeration cfg) (row_P ! cfg_N cfg) (rs_val_P s)
                      else rs_val_P s),
          rs_Y = zeroMean (o_Y upd) (cfg_N cfg) (cfg_no_dims cfg),
          rs_uY = o_uY upd,
          rs_gains = o_gains upd,
          rs_momentum = (if int iter = mom_switch_iter cfg then 0.8 else rs_momentum s),
          rs_printed = (if need_eval_error then rs_printed s @ [(iter + 1, fst g)] else rs_printed s)\<rparr>)"

text \<open>The state when the loop has run its first \<open>k\<close> iterations.\<close>

definition run_iters ::
  "libm \<Rightarrow> nonedge \<Rightarrow> run_config \<Rightarrow> nat list \<Rightarrow> nat list \<Rightarrow> nat \<Rightarrow> run_state \<Rightarrow> run_state" where
  "run_iters lm cnef cfg row_P col_P k s = fold (run_iter lm cnef cfg row_P col_P) [0..<k] s"

text \<open>
  Step 2 of \<^verbatim>\<open>TSNE::run\<close> (lines 139-200), from the normalised affinity graph on. \<open>Y_in\<close>
  is the caller's buffer and \<open>Y_rand\<close> the values \<^verbatim>\<open>randn()\<close> would produce.
\<close>

definition run_init :: "run_config \<Rightarrow> nat list \<Rightarrow> real list \<Rightarrow> real list \<Rightarrow> real list \<Rightarrow> run_state" where
  "run_init cfg row_P val_P Y_in Y_rand =
     \<lparr>rs_val_P = lie (cfg_early_exaggeration cfg) (row_P ! cfg_N cfg) val_P,
      rs_Y = (if cfg_init_from_Y cfg then Y_in else Y_rand),
      rs_uY = replicate (cfg_N cfg * cfg_no_dims cfg) 0,
      rs_gains = replicate (cfg_N cfg * cfg_no_dims cfg) 1,
      rs_momentum = 0.5,
      rs_printed = []\<rparr>"

definition run_optimize ::
  "libm \<Rightarrow> nonedge \<Rightarrow> run_config \<Rightarrow> nat list \<Rightarrow> nat list \<Rightarrow> real list \<Rightarrow> real list \<Rightarrow> real list \<Rightarrow>
   run_state" where
  "run_optimize lm cnef cfg row_P col_P val_P Y_in Y_rand =
     run_iters lm cnef cfg row_P col_P (nat (cfg_max_iter cfg)) (run_init cfg row_P val_P Y_in Y_rand)"

text \<open>The part of the state the optimization trajectory consists of.\<close>

definition trajectory :: "run_state \<Rightarrow> real list \<times> real list \<times> real list \<times> real list \<times> real" where
  "trajectory s = (rs_val_P s, rs_Y s, rs_uY s, rs_gains s, rs_momentum s)"

subsection \<open>Error evaluation does not reach the gradient\<close>

lemma fold_related:
  assumes "\<And>x s t. R s t \<Longrightarrow> R (f x s) (g x t)" and "R s t"
  shows "R (fold f xs s) (fold g xs t)"
  using assms(2)
proof (induction xs arbitrary: s t)
  case Nil
  then show ?case by simp
next
  case (Cons x xs)
  then show ?case by (simp add: assms(1))
qed

lemma edge_force_fst:
  "fst s = fst t \<Longrightarrow>
   fst (edge_force lm col_P val_P Y no_dims b n i s) = fst (edge_force lm col_P val_P Y no_dims b' n i t)"
  by (simp add: edge_force_def Let_def)

lemma edge_row_fst:
  assumes "fst s = fst t"
  shows "fst (fold (edge_force lm col_P val_P Y no_dims b n) is s) =
         fst (fold (edge_force lm col_P val_P Y no_dims b' n) is t)"
  using assms
proof (induction "is" arbitrary: s t)
  case Nil
  then show ?case by simp
next
  case (Cons i "is")
  show ?case
    using Cons.IH [OF edge_force_fst [OF Cons.prems]] by simp
qed

lemma edge_loop_fst:
  assumes "fst s = fst t"
  shows "fst (fold (\<lambda>n st. fold (edge_force lm col_P val_P Y no_dims b n) (rng n) st) ns s) =
         fst (fold (\<lambda>n st. fold (edge_force lm col_P val_P Y no_dims b' n) (rng n) st) ns t)"
  using assms
proof (induction ns arbitrary: s t)
  case Nil
  then show ?case by simp
next
  case (Cons n ns)
  show ?case
    using Cons.IH [OF edge_row_fst [OF Cons.prems]] by simp
qed

lemma computeGradient_dC:
  "snd (computeGradient lm cnef row_P col_P val_P Y N no_dims theta b) =
   snd (computeGradient lm cnef row_P col_P val_P Y N no_dims theta b')"
  using edge_loop_fst [of "(replicate (N * no_dims) 0, 0, 0)" "(replicate (N * no_dims) 0, 0, 0)"
      lm col_P val_P Y no_dims b "\<lambda>n. [row_P ! n..<row_P ! (n + 1)]" "[0..<N]" b']
  by (simp add: computeGradient_def Let_def)

lemma run_iter_trajectory:
  assumes "trajectory s = trajectory t"
  shows "trajectory (run_iter lm cnef (cfg\<lparr>cfg_verbose := v\<rparr>) row_P col_P iter s) =
         trajectory (run_iter lm cnef (cfg\<lparr>cfg_verbose := w\<rparr>) row_P col_P iter t)"
proof -
  have eq: "rs_val_P s = rs_val_P t" "rs_Y s = rs_Y t" "rs_uY s = rs_uY t"
    "rs_gains s = rs_gains t" "rs_momentum s = rs_momentum t"
    using assms by (simp_all add: trajectory_def)
  have g: "\<And>b b'. snd (computeGradient lm cnef row_P col_P (rs_val_P t) (rs_Y t) (cfg_N cfg)
                 (cfg_no_dims cfg) (cfg_theta cfg) b) =
            snd (computeGradient lm cnef row_P col_P (rs_val_P t) (rs_Y t) (cfg_N cfg)
                 (cfg_no_dims cfg) (cfg_theta cfg) b')"
    by (rule computeGradient_dC)
  show ?thesis
    unfolding trajectory_def run_iter_def Let_def eq
    by (simp add: stop_lying_iter_def mom_switch_iter_def
        g [of "v \<noteq> 0 \<and> (0 < iter \<and> iter mod 100 = 0 \<or> int iter = cfg_max_iter cfg - 1)"
              "w \<noteq> 0 \<and> (0 < iter \<and> iter mod 100 = 0 \<or> int iter = cfg_max_iter cfg - 1)"])
qed

lemma run_iters_trajectory:
  assumes "trajectory s = trajectory t"
  shows "trajectory (run_iters lm cnef (cfg\<lparr>cfg_verbose := v\<rparr>) row_P col_P k s) =
         trajectory (run_iters lm cnef (cfg\<lparr>cfg_verbose := w\<rparr>) row_P col_P k t)"
  unfolding run_iters_def
  by (rule fold_related [where R = "\<lambda>s t. trajectory s = trajectory t"])
     (rule run_iter_trajectory, assumption, rule assms)

text \<open>
  C9. The gradient array \<open>dC\<close> that \<^verbatim>\<open>computeGradient\<close> fills is the same with error
  evaluation enabled and disabled, and so the whole run (affinity values, embedding,
  velocities, gains, momentum) is the same whatever the verbosity, which is all that
  switches error evaluation on: the error only reaches what is printed.
\<close>

theorem C9_error_evaluation_is_diagnostic_only:
  "snd (computeGradient lm cnef row_P col_P val_P Y N no_dims theta True) =
   snd (computeGradient lm cnef row_P col_P val_P Y N no_dims theta False)
   \<and> trajectory (run_optimize lm cnef (cfg\<lparr>cfg_verbose := v\<rparr>) row_P col_P val_P Y_in Y_rand) =
     trajectory (run_optimize lm cnef (cfg\<lparr>cfg_verbose := w\<rparr>) row_P col_P val_P Y_in Y_rand)"
proof
  show "snd (computeGradient lm cnef row_P col_P val_P Y N no_dims theta True) =
        snd (computeGradient lm cnef row_P col_P val_P Y N no_dims theta False)"
    by (rule computeGradient_dC)
next
  have init: "trajectory (run_init (cfg\<lparr>cfg_verbose := v\<rparr>) row_P val_P Y_in Y_rand) =
              trajectory (run_init (cfg\<lparr>cfg_verbose := w\<rparr>) row_P val_P Y_in Y_rand)"
    by (simp add: trajectory_def run_init_def)
  show "trajectory (run_optimize lm cnef (cfg\<lparr>cfg_verbose := v\<rparr>) row_P col_P val_P Y_in Y_rand) =
        trajectory (run_optimize lm cnef (cfg\<lparr>cfg_verbose := w\<rparr>) row_P col_P val_P Y_in Y_rand)"
    unfolding run_optimize_def using run_iters_trajectory [OF init] by simp
qed

subsection \<open>The early-exaggeration schedule\<close>

text \<open>A small configuration and a constant stand-in for the tree, to run the loop on.\<close>

definition demo_cfg :: run_config where
  "demo_cfg = \<lparr>cfg_N = 2, cfg_no_dims = 1, cfg_theta = 0.5, cfg_max_iter = 3,
     cfg_n_iter_early_exag = 1, cfg_init_from_Y = False, cfg_verbose = 0,
     cfg_early_exaggeration = 12, cfg_learning_rate = 200\<rparr>"

definition demo_cnef :: nonedge where
  "demo_cnef Y N no_dims n theta = (replicate no_dims 0, 1)"

lemma fold_update_prefix:
  "n \<le> length v \<Longrightarrow>
   fold (\<lambda>i v. v[i := f (v ! i)]) [0..<n] v = map f (take n v) @ drop n v"
proof (induction n)
  case 0
  show ?case by simp
next
  case (Suc n)
  then have n: "n < length v" by simp
  have "fold (\<lambda>i v. v[i := f (v ! i)]) [0..<Suc n] v =
        (map f (take n v) @ drop n v)[n := f ((map f (take n v) @ drop n v) ! n)]"
    using Suc by simp
  also have "\<dots> = map f (take (Suc n) v) @ drop (Suc n) v"
    using n by (simp add: take_Suc_conv_app_nth list_update_append nth_append
        Cons_nth_drop_Suc [symmetric])
  finally show ?case .
qed

lemma stop_lying_lie:
  assumes "e \<noteq> 0" "m \<le> length P"
  shows "stop_lying e m (lie e m P) = P"
proof -
  have l: "lie e m P = map (\<lambda>x. x * e) (take m P) @ drop m P"
    unfolding lie_def using assms(2) by (rule fold_update_prefix)
  have len: "m \<le> length (lie e m P)"
    using assms(2) by (simp add: l)
  have "stop_lying e m (lie e m P) = map (\<lambda>x. x / e) (take m (lie e m P)) @ drop m (lie e m P)"
    unfolding stop_lying_def using len by (rule fold_update_prefix)
  also have "\<dots> = map (\<lambda>x. x / e) (map (\<lambda>x. x * e) (take m P)) @ drop m P"
    using assms(2) by (simp add: l)
  also have "\<dots> = take m P @ drop m P"
    using assms(1) by (simp add: comp_def)
  finally show ?thesis by simp
qed

lemma run_iter_val_P:
  "rs_val_P (run_iter lm cnef cfg row_P col_P iter s) =
     (if int iter = stop_lying_iter cfg
      then stop_lying (cfg_early_exaggeration cfg) (row_P ! cfg_N cfg) (rs_val_P s)
      else rs_val_P s)"
  by (simp add: run_iter_def Let_def)

lemma run_iters_val_P:
  "rs_val_P (run_iters lm cnef cfg row_P col_P k s) =
     (if 0 \<le> stop_lying_iter cfg \<and> stop_lying_iter cfg < int k
      then stop_lying (cfg_early_exaggeration cfg) (row_P ! cfg_N cfg) (rs_val_P s)
      else rs_val_P s)"
proof (induction k)
  case 0
  show ?case by (auto simp add: run_iters_def)
next
  case (Suc k)
  have step: "run_iters lm cnef cfg row_P col_P (Suc k) s =
        run_iter lm cnef cfg row_P col_P k (run_iters lm cnef cfg row_P col_P k s)"
    by (simp add: run_iters_def)
  show ?case
    unfolding step run_iter_val_P Suc.IH by auto
qed

lemma lie_eq:
  "m \<le> length P \<Longrightarrow> lie e m P = map (\<lambda>x. x * e) (take m P) @ drop m P"
  unfolding lie_def by (rule fold_update_prefix)

text \<open>
  C7, as the code has it, for a run that is not given a starting embedding. The affinity
  values are multiplied by the early-exaggeration factor before the loop. They are divided
  back by it at the end of iteration \<open>n_iter_early_exag\<close> and at no other iteration: once
  \<open>k\<close> iterations have run with \<open>0 \<le> n_iter_early_exag < k\<close> the values are the
  unexaggerated ones again, and as long as iteration \<open>n_iter_early_exag\<close> has not run they
  are the exaggerated ones, also at the end of a run that never reaches it.
\<close>

theorem C7_early_exaggeration_schedule:
  assumes "cfg_early_exaggeration cfg \<noteq> 0" and "row_P ! cfg_N cfg \<le> length val_P"
    and "\<not> cfg_init_from_Y cfg"
  shows "rs_val_P (run_init cfg row_P val_P Y_in Y_rand) =
           map (\<lambda>x. x * cfg_early_exaggeration cfg) (take (row_P ! cfg_N cfg) val_P) @
           drop (row_P ! cfg_N cfg) val_P
       \<and> (0 \<le> cfg_n_iter_early_exag cfg \<and> cfg_n_iter_early_exag cfg < int k \<longrightarrow>
            rs_val_P (run_iters lm cnef cfg row_P col_P k (run_init cfg row_P val_P Y_in Y_rand)) =
            val_P)
       \<and> (\<not> (0 \<le> cfg_n_iter_early_exag cfg \<and> cfg_n_iter_early_exag cfg < int k) \<longrightarrow>
            rs_val_P (run_iters lm cnef cfg row_P col_P k (run_init cfg row_P val_P Y_in Y_rand)) =
            rs_val_P (run_init cfg row_P val_P Y_in Y_rand))"
proof -
  have init: "rs_val_P (run_init cfg row_P val_P Y_in Y_rand) =
              lie (cfg_early_exaggeration cfg) (row_P ! cfg_N cfg) val_P"
    by (simp add: run_init_def)
  show ?thesis
    unfolding run_iters_val_P
    using assms
    by (auto simp add: init lie_eq [symmetric] stop_lying_lie stop_lying_iter_def)
qed

theorem C7_early_exaggeration_schedule_witness:
  "rs_val_P (run_init demo_cfg [0, 1, 2] [1 / 2, 1 / 2] [0, 0] [0, 0]) = [6, 6]
   \<and> rs_val_P (run_iters real_libm demo_cnef demo_cfg [0, 1, 2] [1, 0] 1
        (run_init demo_cfg [0, 1, 2] [1 / 2, 1 / 2] [0, 0] [0, 0])) = [6, 6]
   \<and> rs_val_P (run_iters real_libm demo_cnef demo_cfg [0, 1, 2] [1, 0] 2
        (run_init demo_cfg [0, 1, 2] [1 / 2, 1 / 2] [0, 0] [0, 0])) = [1 / 2, 1 / 2]"
  using C7_early_exaggeration_schedule [of demo_cfg "[0, 1, 2]" "[1 / 2, 1 / 2]" "[0, 0]" "[0, 0]" 1
          real_libm demo_cnef "[1, 0]"]
        C7_early_exaggeration_schedule [of demo_cfg "[0, 1, 2]" "[1 / 2, 1 / 2]" "[0, 0]" "[0, 0]" 2
          real_libm demo_cnef "[1, 0]"]
  by (simp add: demo_cfg_def stop_lying_iter_def)

text \<open>
  C7, as the specification words it, fails: a run of 100 iterations with the switch at
  iteration 250 never divides the values back, they are still 12 times the affinities
  when the loop ends.
\<close>

theorem C7_never_divided_counterexample:
  "rs_val_P (run_optimize real_libm demo_cnef
      (demo_cfg\<lparr>cfg_max_iter := 100, cfg_n_iter_early_exag := 250\<rparr>)
      [0, 1, 2] [1, 0] [1 / 2, 1 / 2] [0, 0] [0, 0]) = [6, 6]"
  by (simp add: run_optimize_def run_iters_val_P stop_lying_iter_def demo_cfg_def
      run_init_def lie_eq)

section \<open>Single precision values\<close>

text \<open>
  The calibration loop can drive its bandwidth beyond the range of \<^verbatim>\<open>float\<close>, so here a
  \<^verbatim>\<open>float\<close> is a real number, an infinity or NaN, with the IEEE rules for the
  infinities and NaN. Rounding and the sign of zero are not modelled: a finite result is
  the exact real, and a result beyond \<open>FLT_MAX\<close> in magnitude is an infinity.
\<close>

datatype fl = Finite real | PlusInf | MinusInf | NaN

definition to_float :: "real \<Rightarrow> fl" where
  "to_float r = (if FLT_MAX < r then PlusInf else if r < - FLT_MAX then MinusInf else Finite r)"

fun fl_neg :: "fl \<Rightarrow> fl" where
  "fl_neg (Finite a) = Finite (- a)"
| "fl_neg PlusInf = MinusInf"
| "fl_neg MinusInf = PlusInf"
| "fl_neg NaN = NaN"

fun fl_add :: "fl \<Rightarrow> fl \<Rightarrow> fl" where
  "fl_add (Finite a) (Finite b) = to_float (a + b)"
| "fl_add NaN b = NaN"
| "fl_add a NaN = NaN"
| "fl_add PlusInf MinusInf = NaN"
| "fl_add MinusInf PlusInf = NaN"
| "fl_add PlusInf b = PlusInf"
| "fl_add a PlusInf = PlusInf"
| "fl_add MinusInf b = MinusInf"
| "fl_add a MinusInf = MinusInf"

definition fl_sub :: "fl \<Rightarrow> fl \<Rightarrow> fl" where
  "fl_sub a b = fl_add a (fl_neg b)"

text \<open>The sign of an infinite product or quotient: the infinity, or its negation.\<close>

fun fl_signed :: "bool \<Rightarrow> fl \<Rightarrow> fl" where
  "fl_signed positive a = (if positive then a else fl_neg a)"

fun fl_mul :: "fl \<Rightarrow> fl \<Rightarrow> fl" where
  "fl_mul (Finite a) (Finite b) = to_float (a * b)"
| "fl_mul NaN b = NaN"
| "fl_mul a NaN = NaN"
| "fl_mul (Finite a) b = (if a = 0 then NaN else fl_signed (0 < a) b)"
| "fl_mul a (Finite b) = (if b = 0 then NaN else fl_signed (0 < b) a)"
| "fl_mul PlusInf b = b"
| "fl_mul MinusInf b = fl_neg b"

fun fl_div :: "fl \<Rightarrow> fl \<Rightarrow> fl" where
  "fl_div (Finite a) (Finite b) =
     (if b = 0 then (if a = 0 then NaN else fl_signed (0 < a) PlusInf) else to_float (a / b))"
| "fl_div NaN b = NaN"
| "fl_div a NaN = NaN"
| "fl_div (Finite a) b = Finite 0"
| "fl_div a (Finite b) = fl_signed (0 \<le> b) a"
| "fl_div a b = NaN"

fun fl_exp :: "libm \<Rightarrow> fl \<Rightarrow> fl" where
  "fl_exp lm (Finite a) = to_float (m_exp lm a)"
| "fl_exp lm PlusInf = PlusInf"
| "fl_exp lm MinusInf = Finite 0"
| "fl_exp lm NaN = NaN"

fun fl_log :: "libm \<Rightarrow> fl \<Rightarrow> fl" where
  "fl_log lm (Finite a) =
     (if a < 0 then NaN else if a = 0 then MinusInf else to_float (m_log lm a))"
| "fl_log lm PlusInf = PlusInf"
| "fl_log lm MinusInf = NaN"
| "fl_log lm NaN = NaN"

fun fl_less :: "fl \<Rightarrow> fl \<Rightarrow> bool" where
  "fl_less (Finite a) (Finite b) = (a < b)"
| "fl_less (Finite a) PlusInf = True"
| "fl_less MinusInf (Finite b) = True"
| "fl_less MinusInf PlusInf = True"
| "fl_less a b = False"

definition fl_eq :: "fl \<Rightarrow> fl \<Rightarrow> bool" where
  "fl_eq a b \<longleftrightarrow> a \<noteq> NaN \<and> a = b"

section \<open>Perplexity calibration of one point (\<^verbatim>\<open>TSNE::computeGaussianPerplexity\<close>, lines 389-449)\<close>

text \<open>The variables of the binary search; \<open>s_sum_P\<close> is declared without a value (line 397).\<close>

record search_state =
  s_found :: bool
  s_beta :: fl
  s_min_beta :: fl
  s_max_beta :: fl
  s_iter :: nat
  s_cur_P :: "fl list"
  s_sum_P :: fl

text \<open>
  The body of \<^verbatim>\<open>while (!found && iter < 200)\<close>. \<open>distances\<close> is the result of the
  neighbour search, the point itself at position 0, so neighbour \<open>m\<close> is at \<open>m + 1\<close>; the
  distances, the perplexity and the tolerance are finite numbers.
\<close>

definition perplexity_step ::
  "libm \<Rightarrow> real list \<Rightarrow> nat \<Rightarrow> real \<Rightarrow> real \<Rightarrow> search_state \<Rightarrow> search_state" where
  "perplexity_step lm distances K perplexity tol s =
     (let beta = s_beta s;
          cur_P = map (\<lambda>m. fl_exp lm (fl_mul (fl_neg beta) (Finite (distances ! (m + 1))))) [0..<K];
          sum_P = fold (\<lambda>m a. fl_add a (cur_P ! m)) [0..<K] (Finite FLT_MIN);
          H = fold (\<lambda>m h. fl_add h (fl_mul beta (fl_mul (Finite (distances ! (m + 1))) (cur_P ! m))))
                [0..<K] (Finite 0);
          H = fl_add (fl_div H sum_P) (fl_log lm sum_P);
          Hdiff = fl_sub H (fl_log lm (Finite perplexity));
          s = s\<lparr>s_cur_P := cur_P, s_sum_P := sum_P, s_iter := s_iter s + 1\<rparr>
      in if fl_less Hdiff (Finite tol) \<and> fl_less (fl_neg Hdiff) (Finite tol) then s\<lparr>s_found := True\<rparr>
         else if fl_less (Finite 0) Hdiff
         then s\<lparr>s_min_beta := beta,
                s_beta := (if fl_eq (s_max_beta s) (Finite FLT_MAX) \<or>
                              fl_eq (s_max_beta s) (Finite (- FLT_MAX))
                           then fl_mul beta (Finite 2)
                           else fl_div (fl_add beta (s_max_beta s)) (Finite 2))\<rparr>
         else s\<lparr>s_max_beta := beta,
                s_beta := (if fl_eq (s_min_beta s) (Finite (- FLT_MAX)) \<or>
                              fl_eq (s_min_beta s) (Finite FLT_MAX)
                           then fl_div beta (Finite 2)
                           else fl_div (fl_add beta (s_min_beta s)) (Finite 2))\<rparr>)"

lemma perplexity_step_iter [simp]:
  "s_iter (perplexity_step lm distances K perplexity tol s) = Suc (s_iter s)"
  by (simp add: perplexity_step_def Let_def)

function perplexity_loop ::
  "libm \<Rightarrow> real list \<Rightarrow> nat \<Rightarrow> real \<Rightarrow> real \<Rightarrow> search_state \<Rightarrow> search_state" where
  "perplexity_loop lm distances K perplexity tol s =
     (if \<not> s_found s \<and> s_iter s < 200
      then perplexity_loop lm distances K perplexity tol (perplexity_step lm distances K perplexity tol s)
      else s)"
  by pat_completeness auto
termination
  by (relation "measure (\<lambda>(lm, distances, K, perplexity, tol, s). 200 - s_iter s)") auto

text \<open>
  The search of one point and the row it stores (lines 389-449): the weights
  \<^verbatim>\<open>cur_P[m] / sum_P\<close>. \<open>sum_P0\<close> is whatever the uninitialised \<^verbatim>\<open>sum_P\<close> holds.
\<close>

definition search_init :: "nat \<Rightarrow> fl \<Rightarrow> search_state" where
  "search_init K sum_P0 =
     \<lparr>s_found = False, s_beta = Finite 1, s_min_beta = Finite (- FLT_MAX),
      s_max_beta = Finite FLT_MAX, s_iter = 0, s_cur_P = replicate K (Finite 0),
      s_sum_P = sum_P0\<rparr>"

definition search_result :: "libm \<Rightarrow> real list \<Rightarrow> nat \<Rightarrow> real \<Rightarrow> fl \<Rightarrow> search_state" where
  "search_result lm distances K perplexity sum_P0 =
     perplexity_loop lm distances K perplexity (1 / 100000) (search_init K sum_P0)"

definition calibrated_row :: "libm \<Rightarrow> real list \<Rightarrow> nat \<Rightarrow> real \<Rightarrow> fl \<Rightarrow> fl list" where
  "calibrated_row lm distances K perplexity sum_P0 =
     (let s = search_result lm distances K perplexity sum_P0
      in map (\<lambda>m. fl_div (s_cur_P s ! m) (s_sum_P s)) [0..<K])"

text \<open>What \<^verbatim>\<open>computeGaussianPerplexity\<close> writes to \<^verbatim>\<open>stderr\<close>.\<close>

datatype message =
  PerplexityShouldBeLowerThanK
  | BuildingTreeTakes
  | BuildingTree
  | PointProgress nat nat

text \<open>
  What is printed before the loop over the points (lines 335 and 368-373): the warning
  about a perplexity above \<open>K\<close>, whatever the verbosity, and the two lines about the tree.
\<close>

definition prologue_messages :: "real \<Rightarrow> int \<Rightarrow> int \<Rightarrow> message list" where
  "prologue_messages perplexity K verbose =
     (if perplexity > real_of_int K then [PerplexityShouldBeLowerThanK] else []) @
     (if verbose \<noteq> 0 then [BuildingTreeTakes] else []) @
     (if verbose \<noteq> 0 then [BuildingTree] else [])"

text \<open>
  The progress line of a point (lines 457-463). \<open>None\<close> is the integer division by zero
  of \<^verbatim>\<open>steps_completed % (N / log_freq)\<close> when \<open>N < 5\<close>; with \<open>verbose = 0\<close> the \<^verbatim>\<open>&&\<close>
  does not evaluate it.
\<close>

definition point_progress :: "int \<Rightarrow> nat \<Rightarrow> nat \<Rightarrow> message list option" where
  "point_progress verbose steps_completed N =
     (if verbose = 0 then Some []
      else if N div 5 = 0 then None
      else if steps_completed mod (N div 5) = 0 then Some [PointProgress steps_completed N]
      else Some [])"

text \<open>
  The body of the loop over the points (lines 381-463), from the result of the neighbour
  search on: the column indices and the values of the row, and what is printed. \<open>None\<close>
  is undefined behaviour: a read beyond the end of the search result, which holds fewer
  than \<open>K + 1\<close> entries, or the division by zero of the progress line.
\<close>

definition point_body ::
  "libm \<Rightarrow> int list \<Rightarrow> real list \<Rightarrow> nat \<Rightarrow> real \<Rightarrow> fl \<Rightarrow> int \<Rightarrow> nat \<Rightarrow> nat \<Rightarrow>
   (int list \<times> fl list \<times> message list) option" where
  "point_body lm indices distances K perplexity sum_P0 verbose steps_completed N =
     (if 0 < K \<and> (length distances \<le> K \<or> length indices \<le> K) then None
      else case point_progress verbose steps_completed N of
             None \<Rightarrow> None
           | Some ms \<Rightarrow>
               Some (map (\<lambda>m. indices ! (m + 1)) [0..<K],
                     calibrated_row lm distances K perplexity sum_P0,
                     ms))"

subsection \<open>The passes of the loop\<close>

declare perplexity_loop.simps [simp del]

text \<open>The state after \<open>n\<close> passes, and the bandwidth the last pass of the search evaluated.\<close>

definition passes :: "libm \<Rightarrow> real list \<Rightarrow> nat \<Rightarrow> real \<Rightarrow> fl \<Rightarrow> nat \<Rightarrow> search_state" where
  "passes lm distances K perplexity sum_P0 n =
     (perplexity_step lm distances K perplexity (1 / 100000) ^^ n) (search_init K sum_P0)"

definition last_beta :: "libm \<Rightarrow> real list \<Rightarrow> nat \<Rightarrow> real \<Rightarrow> fl \<Rightarrow> fl" where
  "last_beta lm distances K perplexity sum_P0 =
     s_beta (passes lm distances K perplexity sum_P0
       (s_iter (search_result lm distances K perplexity sum_P0) - 1))"

text \<open>The kernel row of a bandwidth and its sum, as a pass computes them.\<close>

definition kernel_row :: "libm \<Rightarrow> real list \<Rightarrow> nat \<Rightarrow> fl \<Rightarrow> fl list" where
  "kernel_row lm distances K beta =
     map (\<lambda>m. fl_exp lm (fl_mul (fl_neg beta) (Finite (distances ! (m + 1))))) [0..<K]"

definition kernel_sum :: "nat \<Rightarrow> fl list \<Rightarrow> fl" where
  "kernel_sum K cur_P = fold (\<lambda>m a. fl_add a (cur_P ! m)) [0..<K] (Finite FLT_MIN)"

lemma perplexity_step_row:
  "s_cur_P (perplexity_step lm distances K perplexity tol s) = kernel_row lm distances K (s_beta s)"
  "s_sum_P (perplexity_step lm distances K perplexity tol s) =
     kernel_sum K (kernel_row lm distances K (s_beta s))"
  by (simp_all add: perplexity_step_def Let_def kernel_row_def kernel_sum_def)

lemma perplexity_loop_funpow:
  "perplexity_loop lm distances K perplexity tol s =
     (perplexity_step lm distances K perplexity tol ^^
        (s_iter (perplexity_loop lm distances K perplexity tol s) - s_iter s)) s
   \<and> s_iter s \<le> s_iter (perplexity_loop lm distances K perplexity tol s)"
proof (induction lm distances K perplexity tol s rule: perplexity_loop.induct)
  case (1 lm distances K perplexity tol s)
  let ?t = "perplexity_step lm distances K perplexity tol s"
  show ?case
  proof (cases "\<not> s_found s \<and> s_iter s < 200")
    case True
    then have eq: "perplexity_loop lm distances K perplexity tol s =
                   perplexity_loop lm distances K perplexity tol ?t"
      by (subst perplexity_loop.simps) simp
    have IH: "perplexity_loop lm distances K perplexity tol ?t =
        (perplexity_step lm distances K perplexity tol ^^
           (s_iter (perplexity_loop lm distances K perplexity tol ?t) - s_iter ?t)) ?t"
      and le: "s_iter ?t \<le> s_iter (perplexity_loop lm distances K perplexity tol ?t)"
      using "1.IH" [OF True] by blast+
    have "s_iter (perplexity_loop lm distances K perplexity tol ?t) - s_iter s =
          Suc (s_iter (perplexity_loop lm distances K perplexity tol ?t) - s_iter ?t)"
      using le by simp
    then show ?thesis
      unfolding eq using IH le by (simp add: funpow_swap1)
  next
    case False
    then have "perplexity_loop lm distances K perplexity tol s = s"
      by (subst perplexity_loop.simps) auto
    then show ?thesis by simp
  qed
qed

lemma perplexity_loop_iter_le:
  "s_iter s \<le> 200 \<Longrightarrow> s_iter (perplexity_loop lm distances K perplexity tol s) \<le> 200"
proof (induction lm distances K perplexity tol s rule: perplexity_loop.induct)
  case (1 lm distances K perplexity tol s)
  show ?case
  proof (cases "\<not> s_found s \<and> s_iter s < 200")
    case True
    then show ?thesis
      using "1.IH" by (subst perplexity_loop.simps) simp
  next
    case False
    then show ?thesis
      using "1.prems" by (subst perplexity_loop.simps) auto
  qed
qed

lemma perplexity_loop_exit:
  "s_found (perplexity_loop lm distances K perplexity tol s) \<or>
   200 \<le> s_iter (perplexity_loop lm distances K perplexity tol s)"
proof (induction lm distances K perplexity tol s rule: perplexity_loop.induct)
  case (1 lm distances K perplexity tol s)
  show ?case
  proof (cases "\<not> s_found s \<and> s_iter s < 200")
    case True
    then show ?thesis
      using "1.IH" by (subst (1 2) perplexity_loop.simps) simp
  next
    case False
    then show ?thesis
      by (subst (1 2) perplexity_loop.simps) auto
  qed
qed

lemma search_result_passes:
  "search_result lm distances K perplexity sum_P0 =
     passes lm distances K perplexity sum_P0 (s_iter (search_result lm distances K perplexity sum_P0))
   \<and> 1 \<le> s_iter (search_result lm distances K perplexity sum_P0)
   \<and> s_iter (search_result lm distances K perplexity sum_P0) \<le> 200"
proof -
  let ?i = "search_init K sum_P0"
  let ?r = "perplexity_loop lm distances K perplexity (1 / 100000) ?i"
  have i0: "s_iter ?i = 0" "\<not> s_found ?i" by (simp_all add: search_init_def)
  have "?r = (perplexity_step lm distances K perplexity (1 / 100000) ^^ (s_iter ?r - s_iter ?i)) ?i"
    using perplexity_loop_funpow [of lm distances K perplexity "1 / 100000" ?i] by blast
  then have 1: "?r = (perplexity_step lm distances K perplexity (1 / 100000) ^^ s_iter ?r) ?i"
    by (simp add: i0)
  have "?r = perplexity_loop lm distances K perplexity (1 / 100000)
               (perplexity_step lm distances K perplexity (1 / 100000) ?i)"
    using i0 by (subst perplexity_loop.simps) simp
  moreover have "s_iter (perplexity_step lm distances K perplexity (1 / 100000) ?i) \<le>
        s_iter (perplexity_loop lm distances K perplexity (1 / 100000)
               (perplexity_step lm distances K perplexity (1 / 100000) ?i))"
    using perplexity_loop_funpow
      [of lm distances K perplexity "1 / 100000" "perplexity_step lm distances K perplexity (1 / 100000) ?i"]
    by blast
  ultimately have 2: "1 \<le> s_iter ?r" by (simp add: i0)
  have 3: "s_iter ?r \<le> 200"
    by (rule perplexity_loop_iter_le) (simp add: i0)
  show ?thesis
    unfolding search_result_def passes_def using 1 2 3 by simp
qed

lemma search_result_row:
  "s_cur_P (search_result lm distances K perplexity sum_P0) =
     kernel_row lm distances K (last_beta lm distances K perplexity sum_P0)"
  "s_sum_P (search_result lm distances K perplexity sum_P0) =
     kernel_sum K (kernel_row lm distances K (last_beta lm distances K perplexity sum_P0))"
proof -
  let ?n = "s_iter (search_result lm distances K perplexity sum_P0)"
  have n: "?n = Suc (?n - 1)"
    using search_result_passes [of lm distances K perplexity sum_P0] by simp
  have "search_result lm distances K perplexity sum_P0 =
        passes lm distances K perplexity sum_P0 (Suc (?n - 1))"
    using search_result_passes [of lm distances K perplexity sum_P0] n by simp
  then have r: "search_result lm distances K perplexity sum_P0 =
        perplexity_step lm distances K perplexity (1 / 100000)
          (passes lm distances K perplexity sum_P0 (?n - 1))"
    by (simp add: passes_def)
  show "s_cur_P (search_result lm distances K perplexity sum_P0) =
     kernel_row lm distances K (last_beta lm distances K perplexity sum_P0)"
    by (subst r) (simp add: perplexity_step_row last_beta_def)
  show "s_sum_P (search_result lm distances K perplexity sum_P0) =
     kernel_sum K (kernel_row lm distances K (last_beta lm distances K perplexity sum_P0))"
    by (subst r) (simp add: perplexity_step_row last_beta_def)
qed

subsection \<open>The bandwidth stays positive, or becomes infinite\<close>



lemma FLT_MIN_pos: "0 < FLT_MIN"
  by (simp add: FLT_MIN_def)

lemma FLT_MAX_pos: "0 < FLT_MAX"
  by (simp add: FLT_MAX_def)

lemma FLT_MAX_large: "2 ^ 127 \<le> FLT_MAX" "FLT_MAX < 2 ^ 128"
  by (simp_all add: FLT_MAX_def)

lemma to_float_Finite: "- FLT_MAX \<le> r \<Longrightarrow> r \<le> FLT_MAX \<Longrightarrow> to_float r = Finite r"
  by (simp add: to_float_def)






text \<open>The difference between the entropy of the row of a bandwidth and the target.\<close>

definition entropy_diff :: "libm \<Rightarrow> real list \<Rightarrow> nat \<Rightarrow> real \<Rightarrow> fl \<Rightarrow> fl" where
  "entropy_diff lm distances K perplexity beta =
     fl_sub
       (fl_add
          (fl_div
             (fold (\<lambda>m h. fl_add h (fl_mul beta (fl_mul (Finite (distances ! (m + 1)))
                                                  (kernel_row lm distances K beta ! m))))
                [0..<K] (Finite 0))
             (kernel_sum K (kernel_row lm distances K beta)))
          (fl_log lm (kernel_sum K (kernel_row lm distances K beta))))
       (fl_log lm (Finite perplexity))"

lemma perplexity_step_alt:
  "perplexity_step lm distances K perplexity tol s =
     (if fl_less (entropy_diff lm distances K perplexity (s_beta s)) (Finite tol) \<and>
         fl_less (fl_neg (entropy_diff lm distances K perplexity (s_beta s))) (Finite tol)
      then s\<lparr>s_cur_P := kernel_row lm distances K (s_beta s),
             s_sum_P := kernel_sum K (kernel_row lm distances K (s_beta s)),
             s_iter := s_iter s + 1, s_found := True\<rparr>
      else if fl_less (Finite 0) (entropy_diff lm distances K perplexity (s_beta s))
      then s\<lparr>s_cur_P := kernel_row lm distances K (s_beta s),
             s_sum_P := kernel_sum K (kernel_row lm distances K (s_beta s)),
             s_iter := s_iter s + 1, s_min_beta := s_beta s,
             s_beta := (if fl_eq (s_max_beta s) (Finite FLT_MAX) \<or>
                           fl_eq (s_max_beta s) (Finite (- FLT_MAX))
                        then fl_mul (s_beta s) (Finite 2)
                        else fl_div (fl_add (s_beta s) (s_max_beta s)) (Finite 2))\<rparr>
      else s\<lparr>s_cur_P := kernel_row lm distances K (s_beta s),
             s_sum_P := kernel_sum K (kernel_row lm distances K (s_beta s)),
             s_iter := s_iter s + 1, s_max_beta := s_beta s,
             s_beta := (if fl_eq (s_min_beta s) (Finite (- FLT_MAX)) \<or>
                           fl_eq (s_min_beta s) (Finite FLT_MAX)
                        then fl_div (s_beta s) (Finite 2)
                        else fl_div (fl_add (s_beta s) (s_min_beta s)) (Finite 2))\<rparr>)"
  by (simp add: perplexity_step_def Let_def entropy_diff_def kernel_row_def kernel_sum_def)





subsection \<open>A row without NaN\<close>


lemma sum_list_le_length:
  "\<forall>c \<in> set cs. c \<le> (1::real) \<Longrightarrow> sum_list cs \<le> real (length cs)"
  by (induction cs) auto


lemma kernel_sum_finite:
  assumes "\<forall>c \<in> set cs. 0 \<le> c \<and> c \<le> 1" and "length cs = K" and "K < 2147483648"
  shows "kernel_sum K (map Finite cs) = Finite (FLT_MIN + sum_list cs)"
proof -
  have "n \<le> K \<Longrightarrow>
        fold (\<lambda>m a. fl_add a (map Finite cs ! m)) [0..<n] (Finite FLT_MIN) =
        Finite (FLT_MIN + sum_list (take n cs))" for n
  proof (induction n)
    case 0
    show ?case by simp
  next
    case (Suc n)
    then have n: "n < length cs" using assms(2) by simp
    have sub: "set (take (Suc n) cs) \<subseteq> set cs" by (rule set_take_subset)
    have "0 \<le> sum_list (take (Suc n) cs)"
      using assms(1) sub by (intro sum_list_nonneg) auto
    moreover have "sum_list (take (Suc n) cs) \<le> real (length (take (Suc n) cs))"
      using assms(1) sub by (intro sum_list_le_length) auto
    moreover have "real (length (take (Suc n) cs)) \<le> 2147483648"
      using Suc.prems assms(2,3) by simp
    moreover have "FLT_MIN + 2147483648 \<le> FLT_MAX"
      by (simp add: FLT_MIN_def FLT_MAX_def)
    ultimately have rng: "- FLT_MAX \<le> FLT_MIN + sum_list (take (Suc n) cs)"
      "FLT_MIN + sum_list (take (Suc n) cs) \<le> FLT_MAX"
      using FLT_MIN_pos FLT_MAX_pos by linarith+
    have "fold (\<lambda>m a. fl_add a (map Finite cs ! m)) [0..<Suc n] (Finite FLT_MIN) =
          fl_add (Finite (FLT_MIN + sum_list (take n cs))) (Finite (cs ! n))"
      using Suc n by simp
    also have "\<dots> = to_float (FLT_MIN + sum_list (take (Suc n) cs))"
      using n by (simp add: take_Suc_conv_app_nth add.assoc)
    also have "\<dots> = Finite (FLT_MIN + sum_list (take (Suc n) cs))"
      using rng by (simp add: to_float_def)
    finally show ?case .
  qed
  from this [of K] show ?thesis
    using assms(2) by (simp add: kernel_sum_def)
qed




subsection \<open>Neighbours at distance 0\<close>

lemma ln_2_ge_half: "1 / 2 \<le> ln (2::real)"
proof -
  have "ln (1 / 2 :: real) \<le> 1 / 2 - 1" by (rule ln_le_minus_one) simp
  moreover have "ln (1 / 2 :: real) = - ln 2" by (simp add: ln_div)
  ultimately show ?thesis by simp
qed

lemma zero_distance_row:
  assumes "\<forall>m < K. distances ! (m + 1) = 0" and "0 < b"
  shows "kernel_row real_libm distances K (Finite b) = map Finite (replicate K 1)"
proof -
  have one: "to_float 1 = Finite 1"
    by (rule to_float_Finite) (simp_all add: FLT_MAX_def)
  have zero: "to_float 0 = Finite 0"
    using FLT_MAX_pos by (intro to_float_Finite) simp_all
  show ?thesis
    using assms(1) by (intro nth_equalityI) (simp_all add: kernel_row_def real_libm_def one zero)
qed

lemma zero_distance_sum:
  assumes "\<forall>m < K. distances ! (m + 1) = 0" and "0 < b" and "K < 2147483648"
  shows "kernel_sum K (kernel_row real_libm distances K (Finite b)) = Finite (FLT_MIN + real K)"
  using kernel_sum_finite [of "replicate K 1" K] assms
  by (simp add: zero_distance_row sum_list_replicate)

lemma zero_distance_entropy_fold:
  assumes "\<forall>m < K. distances ! (m + 1) = 0" and "0 < b" and "n \<le> K"
  shows "fold (\<lambda>m h. fl_add h (fl_mul (Finite b) (fl_mul (Finite (distances ! (m + 1)))
                                                (kernel_row real_libm distances K (Finite b) ! m))))
           [0..<n] (Finite 0) = Finite 0"
  using assms(3)
proof (induction n)
  case 0
  show ?case by simp
next
  case (Suc n)
  have zero: "to_float 0 = Finite 0"
    using FLT_MAX_pos by (intro to_float_Finite) simp_all
  have "n < K" using Suc.prems by simp
  then show ?case
    using Suc assms(1) by (simp add: zero_distance_row [OF assms(1,2)] zero)
qed

lemma zero_distance_entropy_diff:
  assumes "\<forall>m < K. distances ! (m + 1) = 0" and "0 < b" and "K < 2147483648" and "0 < K"
  shows "entropy_diff real_libm distances K 1 (Finite b) = Finite (ln (FLT_MIN + real K))"
proof -
  have zero: "to_float 0 = Finite 0"
    using FLT_MAX_pos by (intro to_float_Finite) simp_all
  have pos: "0 < FLT_MIN + real K" using FLT_MIN_pos by simp
  have ge1: "1 \<le> FLT_MIN + real K" using FLT_MIN_pos assms(4) by simp
  have l0: "0 \<le> ln (FLT_MIN + real K)" using ge1 by simp
  have "ln (FLT_MIN + real K) \<le> FLT_MIN + real K - 1"
    using pos by (rule ln_le_minus_one)
  moreover have "FLT_MIN + 2147483648 \<le> FLT_MAX"
    by (simp add: FLT_MIN_def FLT_MAX_def)
  ultimately have l1: "ln (FLT_MIN + real K) \<le> FLT_MAX"
    using assms(3) by simp
  have L: "to_float (ln (FLT_MIN + real K)) = Finite (ln (FLT_MIN + real K))"
    using l0 l1 FLT_MAX_pos by (intro to_float_Finite) simp_all
  have f: "fold (\<lambda>m h. fl_add h (fl_mul (Finite b) (fl_mul (Finite (distances ! (m + 1)))
                                                (kernel_row real_libm distances K (Finite b) ! m))))
           [0..<K] (Finite 0) = Finite 0"
    by (rule zero_distance_entropy_fold [OF assms(1,2)]) simp
  have s: "kernel_sum K (kernel_row real_libm distances K (Finite b)) = Finite (FLT_MIN + real K)"
    by (rule zero_distance_sum [OF assms(1,2,3)])
  have lg: "fl_log real_libm (Finite (FLT_MIN + real K)) = Finite (ln (FLT_MIN + real K))"
    using pos L by (simp add: real_libm_def)
  have l1: "fl_log real_libm (Finite 1) = Finite 0"
    by (simp add: real_libm_def zero)
  have dv: "fl_div (Finite 0) (Finite (FLT_MIN + real K)) = Finite 0"
    using pos by (simp add: zero)
  show ?thesis
    unfolding entropy_diff_def f s lg l1 dv fl_sub_def
    by (simp add: L)
qed

lemma infinite_beta_row:
  assumes "\<forall>m < K. distances ! (m + 1) = 0"
  shows "kernel_row lm distances K PlusInf = replicate K NaN"
  using assms by (intro nth_equalityI) (simp_all add: kernel_row_def)

lemma fold_fl_add_NaN:
  "(\<forall>m \<in> set ms. g m = NaN) \<Longrightarrow> ms \<noteq> [] \<Longrightarrow> fold (\<lambda>m a. fl_add a (g m)) ms a0 = NaN"
proof (induction ms arbitrary: a0)
  case Nil
  then show ?case by simp
next
  case (Cons m ms)
  have "fl_add a0 NaN = NaN" by (cases a0) simp_all
  then show ?case
    using Cons by (cases "ms = []") simp_all
qed

lemma infinite_beta_sum:
  assumes "\<forall>m < K. distances ! (m + 1) = 0" and "0 < K"
  shows "kernel_sum K (kernel_row lm distances K PlusInf) = NaN"
  unfolding kernel_sum_def
  using assms by (intro fold_fl_add_NaN) (simp_all add: infinite_beta_row)

lemma fl_div_NaN: "fl_div a NaN = NaN"
  by (cases a) simp_all

lemma infinite_beta_entropy_diff:
  assumes "\<forall>m < K. distances ! (m + 1) = 0" and "0 < K"
  shows "entropy_diff lm distances K perplexity PlusInf = NaN"
  unfolding entropy_diff_def infinite_beta_sum [OF assms] fl_sub_def fl_div_NaN
  by simp

subsection \<open>A search that never converges\<close>

lemma passes_Suc:
  "passes lm distances K perplexity sum_P0 (Suc n) =
     perplexity_step lm distances K perplexity (1 / 100000) (passes lm distances K perplexity sum_P0 n)"
  by (simp add: passes_def)


text \<open>
  With \<open>K \<ge> 2\<close> neighbours, all at distance 0, and target perplexity 1: the bandwidth
  doubles for 127 passes, overflows in pass 128, and every later pass evaluates NaN.
\<close>

definition dup_inv :: "nat \<Rightarrow> search_state \<Rightarrow> bool" where
  "dup_inv K s \<longleftrightarrow>
     \<not> s_found s \<and>
     (s_iter s \<le> 127 \<and> s_beta s = Finite (2 ^ s_iter s) \<and> s_max_beta s = Finite FLT_MAX
      \<or> 128 \<le> s_iter s \<and> s_beta s = PlusInf \<and> s_min_beta s = Finite (2 ^ 127) \<and>
         (129 \<le> s_iter s \<longrightarrow> s_cur_P s = replicate K NaN \<and> s_sum_P s = NaN))"

lemma dup_step:
  assumes z: "\<forall>m < K. distances ! (m + 1) = 0" and K: "2 \<le> K" "K < 2147483648"
    and inv: "dup_inv K s"
  shows "dup_inv K (perplexity_step real_libm distances K 1 (1 / 100000) s)"
proof (cases "s_iter s \<le> 127")
  case True
  then have b: "s_beta s = Finite (2 ^ s_iter s)" and mx: "s_max_beta s = Finite FLT_MAX"
    and nf: "\<not> s_found s"
    using inv by (auto simp add: dup_inv_def)
  have K0: "0 < K" using K(1) by simp
  have d: "entropy_diff real_libm distances K 1 (s_beta s) = Finite (ln (FLT_MIN + real K))"
    unfolding b by (rule zero_distance_entropy_diff [OF z _ K(2) K0]) simp
  have "ln 2 \<le> ln (FLT_MIN + real K)"
    using K(1) FLT_MIN_pos by (subst ln_le_cancel_iff) simp_all
  then have L: "1 / 2 \<le> ln (FLT_MIN + real K)"
    using ln_2_ge_half by linarith
  have c1: "\<not> (fl_less (entropy_diff real_libm distances K 1 (s_beta s)) (Finite (1 / 100000)) \<and>
          fl_less (fl_neg (entropy_diff real_libm distances K 1 (s_beta s))) (Finite (1 / 100000)))"
    using L by (simp add: d)
  have c2: "fl_less (Finite 0) (entropy_diff real_libm distances K 1 (s_beta s))"
    using L by (simp add: d)
  have up: "fl_eq (s_max_beta s) (Finite FLT_MAX)"
    by (simp add: mx fl_eq_def)
  have t: "perplexity_step real_libm distances K 1 (1 / 100000) s =
        s\<lparr>s_cur_P := kernel_row real_libm distances K (s_beta s),
          s_sum_P := kernel_sum K (kernel_row real_libm distances K (s_beta s)),
          s_iter := s_iter s + 1, s_min_beta := s_beta s,
          s_beta := fl_mul (s_beta s) (Finite 2)\<rparr>"
    by (subst perplexity_step_alt) (simp only: c1 c2 up if_True if_False simp_thms)
  show ?thesis
  proof (cases "s_iter s = 127")
    case True
    have "to_float (2 ^ 127 * 2) = PlusInf"
      using FLT_MAX_large(2) by (simp add: to_float_def)
    then have "fl_mul (s_beta s) (Finite 2) = PlusInf"
      by (simp add: b True)
    then show ?thesis
      using nf True b by (simp add: t dup_inv_def)
  next
    case False
    then have n: "Suc (s_iter s) \<le> 127" using \<open>s_iter s \<le> 127\<close> by simp
    have "(2::real) ^ Suc (s_iter s) \<le> 2 ^ 127"
      using n by (intro power_increasing) simp_all
    moreover have "(0::real) \<le> 2 ^ Suc (s_iter s)" by simp
    ultimately have "to_float (2 ^ Suc (s_iter s)) = Finite (2 ^ Suc (s_iter s))"
      using FLT_MAX_large(1) FLT_MAX_pos by (intro to_float_Finite) linarith+
    then have "fl_mul (s_beta s) (Finite 2) = Finite (2 ^ Suc (s_iter s))"
      by (simp add: b mult.commute)
    then show ?thesis
      using nf n mx by (simp add: t dup_inv_def)
  qed
next
  case False
  then have it: "128 \<le> s_iter s" and b: "s_beta s = PlusInf"
    and mn: "s_min_beta s = Finite (2 ^ 127)" and nf: "\<not> s_found s"
    using inv by (auto simp add: dup_inv_def)
  have K0: "0 < K" using K(1) by simp
  have d: "entropy_diff real_libm distances K 1 (s_beta s) = NaN"
    unfolding b by (rule infinite_beta_entropy_diff [OF z K0])
  have c1: "\<not> (fl_less (entropy_diff real_libm distances K 1 (s_beta s)) (Finite (1 / 100000)) \<and>
          fl_less (fl_neg (entropy_diff real_libm distances K 1 (s_beta s))) (Finite (1 / 100000)))"
    by (simp add: d)
  have c2: "\<not> fl_less (Finite 0) (entropy_diff real_libm distances K 1 (s_beta s))"
    by (simp add: d)
  have "(2::real) ^ 127 \<noteq> FLT_MAX" "(2::real) ^ 127 \<noteq> - FLT_MAX"
    by (simp_all add: FLT_MAX_def)
  then have dn: "\<not> (fl_eq (s_min_beta s) (Finite (- FLT_MAX)) \<or> fl_eq (s_min_beta s) (Finite FLT_MAX))"
    by (simp add: mn fl_eq_def)
  have t: "perplexity_step real_libm distances K 1 (1 / 100000) s =
        s\<lparr>s_cur_P := kernel_row real_libm distances K (s_beta s),
          s_sum_P := kernel_sum K (kernel_row real_libm distances K (s_beta s)),
          s_iter := s_iter s + 1, s_max_beta := s_beta s,
          s_beta := fl_div (fl_add (s_beta s) (s_min_beta s)) (Finite 2)\<rparr>"
    by (subst perplexity_step_alt) (simp only: c1 c2 dn if_True if_False simp_thms)
  have sm: "kernel_sum K (replicate K NaN) = NaN"
    using infinite_beta_sum [OF z K0, of real_libm] by (simp add: infinite_beta_row [OF z])
  show ?thesis
    using nf it mn
    by (simp add: t dup_inv_def b infinite_beta_row [OF z] sm)
qed

lemma dup_passes:
  assumes "\<forall>m < K. distances ! (m + 1) = 0" and "2 \<le> K" and "K < 2147483648"
  shows "dup_inv K (passes real_libm distances K 1 sum_P0 n)"
proof (induction n)
  case 0
  show ?case by (simp add: passes_def search_init_def dup_inv_def)
next
  case (Suc n)
  show ?case
    unfolding passes_Suc by (rule dup_step [OF assms Suc])
qed

lemma dup_search:
  assumes "\<forall>m < K. distances ! (m + 1) = 0" and "2 \<le> K" and "K < 2147483648"
  shows "\<not> s_found (search_result real_libm distances K 1 sum_P0)
       \<and> s_iter (search_result real_libm distances K 1 sum_P0) = 200
       \<and> s_cur_P (search_result real_libm distances K 1 sum_P0) = replicate K NaN
       \<and> s_sum_P (search_result real_libm distances K 1 sum_P0) = NaN
       \<and> calibrated_row real_libm distances K 1 sum_P0 = replicate K NaN"
proof -
  let ?r = "search_result real_libm distances K 1 sum_P0"
  have p: "?r = passes real_libm distances K 1 sum_P0 (s_iter ?r)" and le: "s_iter ?r \<le> 200"
    using search_result_passes [of real_libm distances K 1 sum_P0] by simp_all
  have inv: "dup_inv K ?r"
    by (subst p) (rule dup_passes [OF assms])
  then have nf: "\<not> s_found ?r" by (simp add: dup_inv_def)
  have "s_found ?r \<or> 200 \<le> s_iter ?r"
    unfolding search_result_def by (rule perplexity_loop_exit)
  then have it: "s_iter ?r = 200" using nf le by simp
  have cur: "s_cur_P ?r = replicate K NaN" and sm: "s_sum_P ?r = NaN"
    using inv it by (simp_all add: dup_inv_def)
  have "calibrated_row real_libm distances K 1 sum_P0 = replicate K NaN"
    by (intro nth_equalityI) (simp_all add: calibrated_row_def Let_def cur sm)
  then show ?thesis using nf it cur sm by simp
qed

lemma four_zeros: "\<forall>m < 3. [0, 0, 0, 0 :: real] ! (m + 1) = 0"
  by (auto simp add: less_Suc_eq numeral_3_eq_3)


text \<open>
  C8, as the code has it. The search loop of a point makes at least one and at most 200
  passes; when it ends without convergence it has made exactly 200. In either case the
  row stored is the kernel row of the bandwidth the last pass evaluated, divided by its
  sum: no error is raised, provided the neighbour search returned \<open>K + 1\<close> entries and the
  progress line does not divide by zero (verbosity off, or at least 5 points). Nothing is
  logged about convergence: what the body of a point prints is at most its progress line.
\<close>

theorem C8_iteration_cap:
  assumes "K < length distances" and "K < length indices" and "verbose = 0 \<or> 5 \<le> N"
  shows "1 \<le> s_iter (search_result lm distances K perplexity sum_P0)
       \<and> s_iter (search_result lm distances K perplexity sum_P0) \<le> 200
       \<and> (\<not> s_found (search_result lm distances K perplexity sum_P0) \<longrightarrow>
            s_iter (search_result lm distances K perplexity sum_P0) = 200)
       \<and> (\<exists>ms. point_body lm indices distances K perplexity sum_P0 verbose steps_completed N =
                 Some (map (\<lambda>m. indices ! (m + 1)) [0..<K],
                       map (\<lambda>m. fl_div
                              (kernel_row lm distances K
                                 (last_beta lm distances K perplexity sum_P0) ! m)
                              (kernel_sum K (kernel_row lm distances K
                                 (last_beta lm distances K perplexity sum_P0))))
                         [0..<K],
                       ms)
               \<and> set ms \<subseteq> {PointProgress steps_completed N})"
proof -
  let ?r = "search_result lm distances K perplexity sum_P0"
  have it: "1 \<le> s_iter ?r" "s_iter ?r \<le> 200"
    using search_result_passes [of lm distances K perplexity sum_P0] by simp_all
  have ex: "s_found ?r \<or> 200 \<le> s_iter ?r"
    unfolding search_result_def by (rule perplexity_loop_exit)
  have row: "calibrated_row lm distances K perplexity sum_P0 =
        map (\<lambda>m. fl_div
               (kernel_row lm distances K (last_beta lm distances K perplexity sum_P0) ! m)
               (kernel_sum K (kernel_row lm distances K (last_beta lm distances K perplexity sum_P0))))
          [0..<K]"
    by (simp add: calibrated_row_def Let_def search_result_row)
  have "5 \<le> N \<Longrightarrow> N div 5 \<noteq> 0" by simp
  then have "\<exists>ms. point_progress verbose steps_completed N = Some ms
                 \<and> set ms \<subseteq> {PointProgress steps_completed N}"
    using assms(3) by (auto simp add: point_progress_def)
  then obtain ms where ms: "point_progress verbose steps_completed N = Some ms"
    and sub: "set ms \<subseteq> {PointProgress steps_completed N}"
    by blast
  have "point_body lm indices distances K perplexity sum_P0 verbose steps_completed N =
        Some (map (\<lambda>m. indices ! (m + 1)) [0..<K],
              calibrated_row lm distances K perplexity sum_P0, ms)"
    using assms(1,2) by (simp add: point_body_def ms)
  then show ?thesis
    using it ex sub unfolding row by auto
qed

lemma neighbour_columns: "map (\<lambda>m. [0, 1, 2, 3 :: int] ! (m + 1)) [0..<3] = [1, 2, 3]"
  by (simp add: upt_rec numeral_3_eq_3)

theorem C8_iteration_cap_witness:
  "s_iter (search_result real_libm [0, 0, 0, 0] 3 1 (Finite 0)) = 200
   \<and> point_body real_libm [0, 1, 2, 3] [0, 0, 0, 0] 3 1 (Finite 0) 1 4 10 =
       Some ([1, 2, 3], [NaN, NaN, NaN], [PointProgress 4 10])"
proof -
  have d: "\<not> s_found (search_result real_libm [0, 0, 0, 0] 3 1 (Finite 0))"
    "calibrated_row real_libm [0, 0, 0, 0] 3 1 (Finite 0) = [NaN, NaN, NaN]"
    using dup_search [OF four_zeros, of "Finite 0"] by (simp_all add: numeral_3_eq_3)
  have p: "point_progress 1 4 10 = Some [PointProgress 4 10]"
    by (simp add: point_progress_def)
  have b: "point_body real_libm [0, 1, 2, 3] [0, 0, 0, 0] 3 1 (Finite 0) 1 4 10 =
       Some ([1, 2, 3], [NaN, NaN, NaN], [PointProgress 4 10])"
    unfolding point_body_def p d(2) neighbour_columns by simp
  show ?thesis
    using C8_iteration_cap [of 3 "[0, 0, 0, 0]" "[0, 1, 2, 3]" 1 10 real_libm 1 "Finite 0" 4] d(1) b
    by simp
qed

text \<open>
  C8, as the specification words it, fails. A point with three neighbours at distance 0
  and target perplexity 1, which is below \<open>K = 3\<close>: the search never converges and stops
  after 200 passes, the row is stored, and with verbosity on nothing is printed for the
  point; before the loop only the two lines about the tree are printed.
\<close>

theorem C8_no_warning_counterexample:
  "\<not> s_found (search_result real_libm [0, 0, 0, 0] 3 1 (Finite 0))
   \<and> s_iter (search_result real_libm [0, 0, 0, 0] 3 1 (Finite 0)) = 200
   \<and> point_body real_libm [0, 1, 2, 3] [0, 0, 0, 0] 3 1 (Finite 0) 1 1 10 =
       Some ([1, 2, 3], [NaN, NaN, NaN], [])
   \<and> prologue_messages 1 3 1 = [BuildingTreeTakes, BuildingTree]"
proof -
  have d: "\<not> s_found (search_result real_libm [0, 0, 0, 0] 3 1 (Finite 0))"
    "s_iter (search_result real_libm [0, 0, 0, 0] 3 1 (Finite 0)) = 200"
    "calibrated_row real_libm [0, 0, 0, 0] 3 1 (Finite 0) = [NaN, NaN, NaN]"
    using dup_search [OF four_zeros, of "Finite 0"] by (simp_all add: numeral_3_eq_3)
  have p: "point_progress 1 1 10 = Some []"
    by (simp add: point_progress_def)
  have b: "point_body real_libm [0, 1, 2, 3] [0, 0, 0, 0] 3 1 (Finite 0) 1 1 10 =
       Some ([1, 2, 3], [NaN, NaN, NaN], [])"
    unfolding point_body_def p d(3) neighbour_columns by simp
  show ?thesis
    using d(1,2) b by (simp add: prologue_messages_def)
qed

section \<open>The batched perplexity search (\<^verbatim>\<open>SearchPerplexity\<close> and its kernels)\<close>

text \<open>
  \<^verbatim>\<open>ComputePijKernel\<close> for thread \<open>TID\<close>: the unnormalised weight of neighbour
  \<open>TID mod num_near_neighbors\<close> of point \<open>TID div num_near_neighbors\<close>; threads beyond the
  matrix return at once.
\<close>

definition ComputePijKernel ::
  "libm \<Rightarrow> real list \<Rightarrow> fl list \<Rightarrow> nat \<Rightarrow> nat \<Rightarrow> nat \<Rightarrow> fl list \<Rightarrow> fl list" where
  "ComputePijKernel lm squared_dist betas num_points num_near_neighbors TID pij =
     (if TID \<ge> num_points * num_near_neighbors then pij
      else let i = TID div num_near_neighbors;
               j = TID mod num_near_neighbors;
               beta = betas ! i;
               d = squared_dist ! TID
           in pij[TID := (if j = 0 \<and> d = 0 then Finite 0
                          else fl_exp lm (fl_mul (fl_neg beta) (Finite d)))])"

text \<open>
  \<^verbatim>\<open>PerplexitySearchKernel\<close> for thread \<open>i\<close>: the bisection step of point \<open>i\<close> on the
  arrays \<open>betas\<close>, \<open>lower_bound\<close>, \<open>upper_bound\<close> and \<open>found\<close>.
\<close>

record kernel_arrays =
  k_betas :: "fl list"
  k_lower_bound :: "fl list"
  k_upper_bound :: "fl list"
  k_found :: "bool list"

definition PerplexitySearchKernel ::
  "libm \<Rightarrow> fl list \<Rightarrow> fl list \<Rightarrow> real \<Rightarrow> real \<Rightarrow> nat \<Rightarrow> nat \<Rightarrow> kernel_arrays \<Rightarrow> kernel_arrays" where
  "PerplexitySearchKernel lm neg_entropy row_sum perplexity_target epsilon num_points i a =
     (if i \<ge> num_points then a
      else let neg_ent = neg_entropy ! i;
               sum_P = row_sum ! i;
               beta = k_betas a ! i;
               min_beta = k_lower_bound a ! i;
               max_beta = k_upper_bound a ! i;
               perplexity = fl_add (fl_div neg_ent sum_P) (fl_log lm sum_P);
               perplexity_diff = fl_sub perplexity (fl_log lm (Finite perplexity_target));
               is_found = (fl_less perplexity_diff (Finite epsilon) \<and>
                           fl_less (fl_neg perplexity_diff) (Finite epsilon));
               a = (if \<not> is_found
                    then (if fl_less (Finite 0) perplexity_diff
                          then a\<lparr>k_lower_bound := (k_lower_bound a)[i := beta],
                                 k_upper_bound := (k_upper_bound a)[i := max_beta],
                                 k_betas := (k_betas a)[i :=
                                   (if fl_eq max_beta (Finite FLT_MAX) \<or>
                                       fl_eq max_beta (Finite (- FLT_MAX))
                                    then fl_mul beta (Finite 2)
                                    else fl_div (fl_add beta max_beta) (Finite 2))]\<rparr>
                          else a\<lparr>k_lower_bound := (k_lower_bound a)[i := min_beta],
                                 k_upper_bound := (k_upper_bound a)[i := beta],
                                 k_betas := (k_betas a)[i :=
                                   (if fl_eq min_beta (Finite (- FLT_MAX)) \<or>
                                       fl_eq min_beta (Finite FLT_MAX)
                                    then fl_div beta (Finite 2)
                                    else fl_div (fl_add beta min_beta) (Finite 2))]\<rparr>)
                    else a)
           in a\<lparr>k_found := (k_found a)[i := is_found]\<rparr>)"

text \<open>
  \<^verbatim>\<open>SearchPerplexity\<close> prints a line and returns (lines 87-88) before it allocates,
  launches a kernel or touches \<open>pij\<close>: the loop after the \<^verbatim>\<open>return\<close> is unreachable, and
  the caller's \<open>pij\<close> is what it was.
\<close>

definition SearchPerplexity ::
  "libm \<Rightarrow> fl list \<Rightarrow> real list \<Rightarrow> real \<Rightarrow> real \<Rightarrow> nat \<Rightarrow> nat \<Rightarrow> fl list" where
  "SearchPerplexity lm pij squared_dist perplexity_target epsilon num_points num_near_neighbors = pij"

text \<open>
  The kernel's step is the bisection step of the sequential search: fed the row sum and
  the entropy term the sequential loop computes, it moves \<open>beta\<close> and the bounds as
  \<open>perplexity_step\<close> does.
\<close>

lemma PerplexitySearchKernel_is_perplexity_step:
  fixes s :: search_state and lm :: libm and distances :: "real list" and K :: nat
    and perplexity tol :: real
  defines "t \<equiv> perplexity_step lm distances K perplexity tol s"
  defines "a \<equiv> PerplexitySearchKernel lm
      [fold (\<lambda>m h. fl_add h (fl_mul (s_beta s) (fl_mul (Finite (distances ! (m + 1))) (s_cur_P t ! m))))
         [0..<K] (Finite 0)]
      [s_sum_P t] perplexity tol 1 0
      \<lparr>k_betas = [s_beta s], k_lower_bound = [s_min_beta s], k_upper_bound = [s_max_beta s],
       k_found = [s_found s]\<rparr>"
  assumes "\<not> s_found s"
  shows "k_betas a = [s_beta t] \<and> k_lower_bound a = [s_min_beta t]
       \<and> k_upper_bound a = [s_max_beta t] \<and> k_found a = [s_found t]"
proof -
  define H where "H = fold (\<lambda>m h. fl_add h (fl_mul (s_beta s) (fl_mul (Finite (distances ! (m + 1)))
      (kernel_row lm distances K (s_beta s) ! m)))) [0..<K] (Finite 0)"
  define sm where "sm = kernel_sum K (kernel_row lm distances K (s_beta s))"
  define Hdiff where "Hdiff = entropy_diff lm distances K perplexity (s_beta s)"
  have hd: "Hdiff = fl_sub (fl_add (fl_div H sm) (fl_log lm sm)) (fl_log lm (Finite perplexity))"
    by (simp add: Hdiff_def entropy_diff_def H_def sm_def)
  have a: "a = PerplexitySearchKernel lm [H] [sm] perplexity tol 1 0
      \<lparr>k_betas = [s_beta s], k_lower_bound = [s_min_beta s], k_upper_bound = [s_max_beta s],
       k_found = [s_found s]\<rparr>"
    by (simp add: a_def t_def perplexity_step_row H_def sm_def)
  have t: "t = (if fl_less Hdiff (Finite tol) \<and> fl_less (fl_neg Hdiff) (Finite tol)
      then s\<lparr>s_cur_P := kernel_row lm distances K (s_beta s), s_sum_P := sm,
             s_iter := s_iter s + 1, s_found := True\<rparr>
      else if fl_less (Finite 0) Hdiff
      then s\<lparr>s_cur_P := kernel_row lm distances K (s_beta s), s_sum_P := sm,
             s_iter := s_iter s + 1, s_min_beta := s_beta s,
             s_beta := (if fl_eq (s_max_beta s) (Finite FLT_MAX) \<or>
                           fl_eq (s_max_beta s) (Finite (- FLT_MAX))
                        then fl_mul (s_beta s) (Finite 2)
                        else fl_div (fl_add (s_beta s) (s_max_beta s)) (Finite 2))\<rparr>
      else s\<lparr>s_cur_P := kernel_row lm distances K (s_beta s), s_sum_P := sm,
             s_iter := s_iter s + 1, s_max_beta := s_beta s,
             s_beta := (if fl_eq (s_min_beta s) (Finite (- FLT_MAX)) \<or>
                           fl_eq (s_min_beta s) (Finite FLT_MAX)
                        then fl_div (s_beta s) (Finite 2)
                        else fl_div (fl_add (s_beta s) (s_min_beta s)) (Finite 2))\<rparr>)"
    unfolding t_def Hdiff_def sm_def by (rule perplexity_step_alt)
  have k: "PerplexitySearchKernel lm [H] [sm] perplexity tol 1 0
      \<lparr>k_betas = [s_beta s], k_lower_bound = [s_min_beta s], k_upper_bound = [s_max_beta s],
       k_found = [s_found s]\<rparr> =
     (if fl_less Hdiff (Finite tol) \<and> fl_less (fl_neg Hdiff) (Finite tol)
      then \<lparr>k_betas = [s_beta s], k_lower_bound = [s_min_beta s], k_upper_bound = [s_max_beta s],
            k_found = [True]\<rparr>
      else if fl_less (Finite 0) Hdiff
      then \<lparr>k_betas = [if fl_eq (s_max_beta s) (Finite FLT_MAX) \<or>
                           fl_eq (s_max_beta s) (Finite (- FLT_MAX))
                        then fl_mul (s_beta s) (Finite 2)
                        else fl_div (fl_add (s_beta s) (s_max_beta s)) (Finite 2)],
            k_lower_bound = [s_beta s], k_upper_bound = [s_max_beta s], k_found = [False]\<rparr>
      else \<lparr>k_betas = [if fl_eq (s_min_beta s) (Finite (- FLT_MAX)) \<or>
                           fl_eq (s_min_beta s) (Finite FLT_MAX)
                        then fl_div (s_beta s) (Finite 2)
                        else fl_div (fl_add (s_beta s) (s_min_beta s)) (Finite 2)],
            k_lower_bound = [s_min_beta s], k_upper_bound = [s_beta s], k_found = [False]\<rparr>)"
    unfolding hd by (simp add: PerplexitySearchKernel_def Let_def)
  show ?thesis
    unfolding a k t using assms(3) by simp
qed

subsection \<open>One neighbour at distance 0\<close>

lemma ln_FLT_MIN_small: "0 \<le> ln (FLT_MIN + 1) \<and> ln (FLT_MIN + 1) \<le> FLT_MIN"
  using ln_add_one_self_le_self [of FLT_MIN] FLT_MIN_pos by (simp add: add.commute)

lemma single_zero: "\<forall>m < 1. [0, 0 :: real] ! (m + 1) = 0"
  by simp

lemma duplicate_row:
  "calibrated_row real_libm [0, 0] 1 1 sum_P0 = [Finite (1 / (FLT_MIN + 1))]"
proof -
  let ?i = "search_init 1 sum_P0"
  let ?t = "perplexity_step real_libm [0, 0] 1 1 (1 / 100000) ?i"
  have b: "s_beta ?i = Finite 1" and nf: "\<not> s_found ?i" and i0: "s_iter ?i = 0"
    by (simp_all add: search_init_def)
  have d: "entropy_diff real_libm [0, 0] 1 1 (s_beta ?i) = Finite (ln (FLT_MIN + 1))"
    unfolding b using zero_distance_entropy_diff [OF single_zero, of 1] by simp
  have "FLT_MIN < 1 / 100000" by (simp add: FLT_MIN_def)
  then have c1: "fl_less (entropy_diff real_libm [0, 0] 1 1 (s_beta ?i)) (Finite (1 / 100000)) \<and>
       fl_less (fl_neg (entropy_diff real_libm [0, 0] 1 1 (s_beta ?i))) (Finite (1 / 100000))"
    unfolding d using ln_FLT_MIN_small by simp
  have t: "?t = ?i\<lparr>s_cur_P := kernel_row real_libm [0, 0] 1 (s_beta ?i),
             s_sum_P := kernel_sum 1 (kernel_row real_libm [0, 0] 1 (s_beta ?i)),
             s_iter := s_iter ?i + 1, s_found := True\<rparr>"
    by (subst perplexity_step_alt) (simp only: c1 if_True simp_thms)
  have row: "kernel_row real_libm [0, 0] 1 (s_beta ?i) = [Finite 1]"
    unfolding b using zero_distance_row [OF single_zero, of 1] by simp
  have "kernel_sum 1 (kernel_row real_libm [0, 0] 1 (s_beta ?i)) = Finite (FLT_MIN + real 1)"
    unfolding b by (rule zero_distance_sum [OF single_zero]) simp_all
  then have sm: "kernel_sum 1 (kernel_row real_libm [0, 0] 1 (s_beta ?i)) = Finite (FLT_MIN + 1)"
    by (simp only: of_nat_1)
  have ft: "s_found ?t" unfolding t by simp
  have "search_result real_libm [0, 0] 1 1 sum_P0 =
        perplexity_loop real_libm [0, 0] 1 1 (1 / 100000) ?t"
    unfolding search_result_def using nf i0 by (subst perplexity_loop.simps) simp
  also have "\<dots> = ?t"
    using ft by (subst perplexity_loop.simps) simp
  finally have r: "search_result real_libm [0, 0] 1 1 sum_P0 = ?t" .
  have c: "s_cur_P ?t = [Finite 1]" and s: "s_sum_P ?t = Finite (FLT_MIN + 1)"
    using sm unfolding t row by simp_all
  have pos: "0 < FLT_MIN + 1" using FLT_MIN_pos by simp
  have "0 \<le> 1 / (FLT_MIN + 1)" "1 / (FLT_MIN + 1) \<le> 1"
    using FLT_MIN_pos by simp_all
  moreover have "1 \<le> FLT_MAX" by (simp add: FLT_MAX_def)
  ultimately have "to_float (1 / (FLT_MIN + 1)) = Finite (1 / (FLT_MIN + 1))"
    using FLT_MAX_pos by (intro to_float_Finite) linarith+
  then show ?thesis
    using pos unfolding calibrated_row_def Let_def r c s by simp
qed

text \<open>
  C2 fails on the code. One point with one neighbour at squared distance 0 and target
  perplexity 1: the sequential search gives the neighbour the weight \<open>1 / (FLT_MIN + 1)\<close>,
  while \<^verbatim>\<open>SearchPerplexity\<close> returns before its loop and leaves the zero-filled \<open>pij\<close>
  untouched. The two weights differ by more than one half.
\<close>

theorem C2_SearchPerplexity_returns_early:
  "SearchPerplexity real_libm [Finite 0, Finite 0] [0, 0] 1 (1 / 100000) 1 2 = [Finite 0, Finite 0]
   \<and> calibrated_row real_libm [0, 0] 1 1 (Finite 0) = [Finite (1 / (FLT_MIN + 1))]
   \<and> (\<exists>w v. calibrated_row real_libm [0, 0] 1 1 (Finite 0) ! 0 = Finite w
          \<and> SearchPerplexity real_libm [Finite 0, Finite 0] [0, 0] 1 (1 / 100000) 1 2 ! 1 = Finite v
          \<and> 1 / 2 < \<bar>w - v\<bar>)"
proof -
  have row: "calibrated_row real_libm [0, 0] 1 1 (Finite 0) = [Finite (1 / (FLT_MIN + 1))]"
    by (rule duplicate_row)
  have "1 / 2 < 1 / (FLT_MIN + 1)"
    by (simp add: FLT_MIN_def)
  moreover have "\<bar>FLT_MIN + 1\<bar> = FLT_MIN + 1"
    using FLT_MIN_pos by simp
  ultimately show ?thesis
    unfolding row SearchPerplexity_def by simp
qed

section \<open>The vantage-point tree (\<^verbatim>\<open>vptree.h\<close>)\<close>



text \<open>
  A \<^verbatim>\<open>Node\<close> holds \<open>index\<close>, \<open>threshold\<close>, \<open>left\<close> and \<open>right\<close>; \<open>Null\<close> is the null
  pointer.
\<close>

datatype node = Null | Node nat real node node












text \<open>
  \<^verbatim>\<open>std::priority_queue<HeapItem>\<close>, ordered by \<open>dist\<close>: a list of (index, dist) pairs
  with a largest \<open>dist\<close> in front. Among items of equal \<open>dist\<close> the C++ library may keep
  any on top; the list keeps the one pushed first.
\<close>

type_synonym heap = "(nat \<times> real) list"

fun push :: "nat \<times> real \<Rightarrow> heap \<Rightarrow> heap" where
  "push x [] = [x]"
| "push x (y # ys) = (if snd y < snd x then x # y # ys else y # push x ys)"







subsection \<open>Invariants of the tree and of the search state\<close>

text \<open>
  \<open>vp_inv items distance lower upper node\<close>: \<open>node\<close> is a tree over the positions
  \<open>lower ..< upper\<close> of \<open>items\<close>, with its pivot at \<open>lower\<close>, the points of the left subtree
  no farther from the pivot than the threshold and those of the right subtree no closer.
\<close>

fun vp_inv :: "'a list \<Rightarrow> ('a \<Rightarrow> 'a \<Rightarrow> real) \<Rightarrow> nat \<Rightarrow> nat \<Rightarrow> node \<Rightarrow> bool" where
  "vp_inv items distance lower upper Null = (lower = upper)"
| "vp_inv items distance lower upper (Node index threshold left right) =
     (index = lower \<and> lower < upper \<and>
      (\<exists>median. lower < median \<and> median \<le> upper \<and>
         vp_inv items distance (lower + 1) median left \<and>
         vp_inv items distance median upper right \<and>
         (\<forall>t. lower < t \<and> t < median \<longrightarrow> distance (items ! lower) (items ! t) \<le> threshold) \<and>
         (\<forall>t. median \<le> t \<and> t < upper \<longrightarrow> threshold \<le> distance (items ! lower) (items ! t))))"



lemma set_push [simp]: "set (push x h) = insert x (set h)"
  by (induction h) auto

lemma length_push [simp]: "length (push x h) = Suc (length h)"
  by (induction h) auto



lemma hd_max:
  fixes h :: heap
  shows "sorted_wrt (\<lambda>a b. snd b \<le> snd a) h \<Longrightarrow> e \<in> set h \<Longrightarrow> snd e \<le> snd (hd h)"
  by (cases h) auto










lemma vp_inv_Null_range: "vp_inv items distance lower upper Null \<Longrightarrow> lower \<le> j \<Longrightarrow> j < upper \<Longrightarrow> False"
  by simp









subsection \<open>Building the tree\<close>

















subsection \<open>An \<^verbatim>\<open>nth_element\<close> that meets the contract, and the distance\<close>

















subsection \<open>What a search returns\<close>














end
